theory Spec2Isabelle
  imports Complex_Main
begin

section \<open>The demo API route and the root route of the template\<close>

text \<open>
  The repository has two pieces of logic. The file route \<^verbatim>\<open>src/routes/api/demo.ts\<close>
  registers a \<^verbatim>\<open>GET\<close> handler that reads the \<^verbatim>\<open>user-agent\<close> request header and
  answers with a JSON message. The root route \<^verbatim>\<open>/\<close> has a server function
  \<^verbatim>\<open>getMessageFn\<close> that fetches that endpoint, a loader that awaits the server
  function, and a component \<^verbatim>\<open>App\<close> that puts the loaded message into a
  \<^verbatim>\<open>div\<close>.

  The code calls into the web platform (\<^verbatim>\<open>Headers.get\<close>, \<^verbatim>\<open>Response.json\<close>,
  \<^verbatim>\<open>fetch\<close>, \<^verbatim>\<open>Response.prototype.json\<close>). Those calls are modelled first, as
  far as the two routes use them; the functions of the repository follow, under their
  own names.
\<close>

subsection \<open>JavaScript values and errors\<close>

text \<open>
  A value that \<^verbatim>\<open>JSON.parse\<close> can produce and \<^verbatim>\<open>JSON.stringify\<close> can write.
  An object is the list of its own properties in insertion order; a number is the
  rational it denotes. \<^verbatim>\<open>undefined\<close> is not a JSON value: where the code can meet
  it, the model uses \<open>json option\<close> with \<open>None\<close> for \<^verbatim>\<open>undefined\<close>.
\<close>

datatype json =
    JNull
  | JBool bool
  | JNumber rat
  | JString string
  | JArray "json list"
  | JObject "(string \<times> json) list"

text \<open>
  A string is a list of 8-bit characters. A header value is a sequence of bytes, which
  JavaScript reads as a string with one code unit per byte, and the literal parts of
  the template of the handler are ASCII, so every string the two routes build is of
  this kind.
\<close>

text \<open>
  What a call can throw or a promise can reject with: the error's class and its text.
\<close>

datatype js_error =
    TypeError string
  | SyntaxError string
  | DOMException string string
  | Error string

subsection \<open>Headers\<close>

text \<open>
  A \<^verbatim>\<open>Headers\<close> object is a header list: name and value pairs, names compared
  without regard to ASCII case.
\<close>

type_synonym header_list = "(string \<times> string) list"

definition ascii_lower :: "char \<Rightarrow> char" where
  "ascii_lower c =
     (case map_of (zip ''ABCDEFGHIJKLMNOPQRSTUVWXYZ'' ''abcdefghijklmnopqrstuvwxyz'') c of
        Some l \<Rightarrow> l
      | None \<Rightarrow> c)"

definition byte_lowercase :: "string \<Rightarrow> string" where
  "byte_lowercase s = map ascii_lower s"

text \<open>
  A header name is a token of HTTP: at least one character, each a letter, a digit or
  one of the fifteen marks (the last two are the apostrophe and the backtick).
\<close>

definition is_tchar :: "char \<Rightarrow> bool" where
  "is_tchar c \<longleftrightarrow>
     c \<in> set (''abcdefghijklmnopqrstuvwxyz'' @ ''ABCDEFGHIJKLMNOPQRSTUVWXYZ'' @
              ''0123456789'' @ ''!#$%&*+-.^_|~'' @ [CHR 0x27, CHR 0x60])"

definition is_header_name :: "string \<Rightarrow> bool" where
  "is_header_name name \<longleftrightarrow> name \<noteq> [] \<and> list_all is_tchar name"

fun join_values :: "string list \<Rightarrow> string" where
  "join_values [] = []"
| "join_values [v] = v"
| "join_values (v # vs) = v @ '', '' @ join_values vs"

text \<open>
  \<^verbatim>\<open>headers.get(name)\<close>: a \<^verbatim>\<open>TypeError\<close> when the name is not a header name;
  \<^verbatim>\<open>null\<close> (here \<open>None\<close>) when the list has no header of that name; otherwise the
  values of all headers of that name, in order, joined by a comma and a space.
\<close>

definition headers_get :: "header_list \<Rightarrow> string \<Rightarrow> js_error + string option" where
  "headers_get hs name =
     (if \<not> is_header_name name then Inl (TypeError ''Invalid header name'')
      else (case map snd (filter (\<lambda>h. byte_lowercase (fst h) = byte_lowercase name) hs) of
              [] \<Rightarrow> Inr None
            | v # vs \<Rightarrow> Inr (Some (join_values (v # vs)))))"

subsection \<open>Requests and responses\<close>

record request =
  http_method :: string
  url :: string
  headers :: header_list
  body :: "string option"

text \<open>
  The body of a response is represented by what reading it as JSON gives: the text of
  a JSON value, a text that is not JSON, or a stream that fails while it is read.
\<close>

datatype response_body =
    JsonText json
  | NotJson string
  | ReadFails js_error

record response =
  status :: nat
  resp_headers :: header_list
  resp_body :: response_body

text \<open>
  \<^verbatim>\<open>Response.json(data)\<close> with no init: status 200, the JSON content type, and
  the serialised data as the body.
\<close>

definition Response_json :: "json \<Rightarrow> response" where
  "Response_json data =
     \<lparr>status = 200, resp_headers = [(''content-type'', ''application/json'')],
      resp_body = JsonText data\<rparr>"

text \<open>
  \<^verbatim>\<open>response.json()\<close>: the parsed body, or the rejection. The status of the
  response plays no part in it.
\<close>

definition response_json :: "response \<Rightarrow> js_error + json" where
  "response_json r =
     (case resp_body r of
        JsonText v \<Rightarrow> Inr v
      | NotJson t \<Rightarrow> Inl (SyntaxError ''Unexpected token in JSON'')
      | ReadFails e \<Rightarrow> Inl e)"

text \<open>
  A template literal turns the substituted value into a string: a string stays as it
  is, \<^verbatim>\<open>null\<close> becomes the four characters \<^verbatim>\<open>null\<close>.
\<close>

definition template_string :: "string option \<Rightarrow> string" where
  "template_string v = (case v of None \<Rightarrow> ''null'' | Some s \<Rightarrow> s)"

subsection \<open>The handler of \<^verbatim>\<open>/api/demo\<close>\<close>

text \<open>
  \<^verbatim>\<open>
  GET: ({ request }) => {
    const agent = request.headers.get("user-agent");
    return Response.json({ message: `Hello "/api/demo"! Agent: ${agent}` });
  }
  \<close>
\<close>

definition GET :: "request \<Rightarrow> js_error + response" where
  \<open>GET request =
     (case headers_get (headers request) ''user-agent'' of
        Inl e \<Rightarrow> Inl e
      | Inr agent \<Rightarrow>
          Inr (Response_json
                 (JObject [(''message'',
                            JString (''Hello "/api/demo"! Agent: '' @ template_string agent))])))\<close>

text \<open>The \<^verbatim>\<open>message\<close> field of a response whose body is a JSON object.\<close>

definition message_of :: "response \<Rightarrow> json option" where
  "message_of r =
     (case resp_body r of
        JsonText (JObject props) \<Rightarrow> map_of props ''message''
      | _ \<Rightarrow> None)"

subsection \<open>The outside world of the server function\<close>

text \<open>
  What the server function can observe: the network, which settles an outbound request
  with a response or with a rejection, and the process environment. A run also leaves a
  trace of the outbound requests it sends and of their settling.
\<close>

record world =
  network :: "request \<Rightarrow> js_error + response"
  env :: "string \<rightharpoonup> string"

datatype event = Sent request | Settled request

text \<open>
  The request that \<^verbatim>\<open>fetch(input)\<close> makes from a URL string and no init: method
  \<^verbatim>\<open>GET\<close>, no headers of the caller's, no body.
\<close>

definition fetch_request :: "string \<Rightarrow> request" where
  "fetch_request input = \<lparr>http_method = ''GET'', url = input, headers = [], body = None\<rparr>"

text \<open>
  \<^verbatim>\<open>await fetch(input)\<close>: the request is sent, and the caller goes on only when the
  network has settled it.
\<close>

definition fetch :: "world \<Rightarrow> string \<Rightarrow> event list \<times> (js_error + response)" where
  "fetch w input =
     (let rq = fetch_request input in ([Sent rq, Settled rq], network w rq))"

text \<open>The requests a trace sends, and how many are in flight at its end.\<close>

fun sent :: "event list \<Rightarrow> request list" where
  "sent [] = []"
| "sent (Sent rq # t) = rq # sent t"
| "sent (Settled rq # t) = sent t"

fun in_flight_step :: "event \<Rightarrow> nat \<Rightarrow> nat" where
  "in_flight_step (Sent rq) n = Suc n"
| "in_flight_step (Settled rq) n = n - 1"

definition in_flight :: "event list \<Rightarrow> nat" where
  "in_flight t = fold in_flight_step t 0"

subsection \<open>The root route\<close>

text \<open>
  \<^verbatim>\<open>
  const getMessageFn = createServerFn({ method: "GET" }).handler(async () => {
    const response = await fetch("http://localhost:3000/api/demo");
    const data = (await response.json()) as { message: string };
    return data;
  });
  \<close>
  The handler declares no parameter: whatever the caller passes (\<open>opts\<close>) is not
  read. The cast \<^verbatim>\<open>as { message: string }\<close> is erased when the code is compiled. A
  rejected \<^verbatim>\<open>await\<close> throws, and nothing catches it.
\<close>

definition getMessageFn :: "json option \<Rightarrow> world \<Rightarrow> event list \<times> (js_error + json)" where
  "getMessageFn opts w =
     (case fetch w ''http://localhost:3000/api/demo'' of
        (t, Inl e) \<Rightarrow> (t, Inl e)
      | (t, Inr response) \<Rightarrow>
          (case response_json response of
             Inl e \<Rightarrow> (t, Inl e)
           | Inr data \<Rightarrow> (t, Inr data)))"

text \<open>\<^verbatim>\<open>loader: async () => await getMessageFn()\<close>\<close>

definition loader :: "world \<Rightarrow> event list \<times> (js_error + json)" where
  "loader w = getMessageFn None w"

text \<open>
  \<^verbatim>\<open>const { message } = data\<close>: destructuring \<^verbatim>\<open>null\<close> throws; an object gives
  its property, or \<^verbatim>\<open>undefined\<close> (\<open>None\<close>) when it has none of that name; a
  boolean, a number, a string or an array has no property \<^verbatim>\<open>message\<close>.
\<close>

definition destructure_message :: "json \<Rightarrow> js_error + json option" where
  "destructure_message data =
     (case data of
        JNull \<Rightarrow> Inl (TypeError ''Cannot destructure property message of null'')
      | JObject props \<Rightarrow> Inr (map_of props ''message'')
      | _ \<Rightarrow> Inr None)"

text \<open>
  The element a component returns: its tag, its class and its child, as
  \<^verbatim>\<open><div className="...">{message}</div>\<close> builds it.
\<close>

record element =
  tag :: string
  className :: string
  children :: "json option"

text \<open>
  \<^verbatim>\<open>
  function App() {
    const { message } = Route.useLoaderData();
    return <div className="mx-auto flex p-4">{message}</div>;
  }
  \<close>
  \<^verbatim>\<open>Route.useLoaderData()\<close> is the value the loader returned, here the argument.
\<close>

definition App :: "json \<Rightarrow> js_error + element" where
  "App loaderData =
     (case destructure_message loaderData of
        Inl e \<Rightarrow> Inl e
      | Inr message \<Rightarrow>
          Inr \<lparr>tag = ''div'', className = ''mx-auto flex p-4'', children = message\<rparr>)"

text \<open>
  A load of the route \<^verbatim>\<open>/\<close>: the loader runs, and when it has returned the
  component renders with its data.
\<close>

definition page_load :: "world \<Rightarrow> event list \<times> (js_error + element)" where
  "page_load w =
     (case loader w of
        (t, Inl e) \<Rightarrow> (t, Inl e)
      | (t, Inr data) \<Rightarrow> (t, App data))"

subsection \<open>What the page shows\<close>

text \<open>
  React turns the child of an element into text nodes: a string and a number each give
  one text node, \<^verbatim>\<open>null\<close>, \<^verbatim>\<open>undefined\<close> and a boolean give none, an array gives
  the nodes of its members in order, and an object that is not an element makes React
  throw. A number's node keeps the number; its decimal writing is not needed here. The
  text of the element is its text nodes, one after the other.
\<close>

datatype text_node = StringText string | NumberText rat

fun collect_nodes :: "(js_error + text_node list) list \<Rightarrow> js_error + text_node list" where
  "collect_nodes [] = Inr []"
| "collect_nodes (Inl e # rs) = Inl e"
| "collect_nodes (Inr ns # rs) =
     (case collect_nodes rs of Inl e \<Rightarrow> Inl e | Inr ms \<Rightarrow> Inr (ns @ ms))"

fun child_text :: "json \<Rightarrow> js_error + text_node list" where
  "child_text JNull = Inr []"
| "child_text (JBool b) = Inr []"
| "child_text (JNumber n) = Inr [NumberText n]"
| "child_text (JString s) = Inr [StringText s]"
| "child_text (JArray vs) = collect_nodes (map child_text vs)"
| "child_text (JObject props) = Inl (Error ''Objects are not valid as a React child'')"

definition render_text :: "element \<Rightarrow> js_error + text_node list" where
  "render_text el = (case children el of None \<Rightarrow> Inr [] | Some v \<Rightarrow> child_text v)"

text \<open>
  A page load as the user sees it: the loader runs, the component builds its element,
  and React renders the element. It succeeds when all three do.
\<close>

definition rendered_page :: "world \<Rightarrow> event list \<times> (js_error + text_node list)" where
  "rendered_page w =
     (case page_load w of
        (t, Inl e) \<Rightarrow> (t, Inl e)
      | (t, Inr el) \<Rightarrow> (t, render_text el))"

text \<open>
  The \<^verbatim>\<open>message\<close> field of a parsed JSON value, read off the value itself: the
  property of that name when the value is an object that has one.
\<close>

definition message_field :: "json \<Rightarrow> json option" where
  "message_field data =
     (case data of JObject props \<Rightarrow> map_of props ''message'' | _ \<Rightarrow> None)"

text \<open>
  The property as the specification words it, for one world: when the page load
  succeeds, the text on the page is exactly the message field of the value that the
  loader's call of \<^verbatim>\<open>getMessageFn\<close> returned, which the specification takes to be a
  string.
\<close>

definition shows_message_field :: "world \<Rightarrow> bool" where
  "shows_message_field w =
     (case rendered_page w of
        (t, Inl e) \<Rightarrow> True
      | (t, Inr texts) \<Rightarrow>
          (case snd (getMessageFn None w) of
             Inl e \<Rightarrow> False
           | Inr data \<Rightarrow>
               (case message_field data of
                  Some (JString s) \<Rightarrow> texts = [StringText s]
                | _ \<Rightarrow> False)))"

text \<open>
  A world in which some other server listens on the port: every request is answered
  with status 200 and the JSON text of \<open>v\<close>.
\<close>

definition stub_world :: "json \<Rightarrow> world" where
  "stub_world v = \<lparr>network = (\<lambda>rq. Inr (Response_json v)), env = Map.empty\<rparr>"

subsection \<open>A world in which the application answers itself\<close>

text \<open>
  The development setup: the application listens on port 3000 of the local host, so the
  request of the server function reaches the handler of \<^verbatim>\<open>/api/demo\<close>. The client
  that carries the request adds a \<^verbatim>\<open>user-agent\<close> header of its own (\<open>ua\<close>);
  every other address refuses the connection.
\<close>

definition dev_network :: "string \<Rightarrow> request \<Rightarrow> js_error + response" where
  "dev_network ua rq =
     (if url rq = ''http://localhost:3000/api/demo'' \<and> http_method rq = ''GET''
      then GET (rq\<lparr>headers := (''user-agent'', ua) # headers rq\<rparr>)
      else Inl (TypeError ''fetch failed''))"

definition dev_world :: world where
  "dev_world = \<lparr>network = dev_network ''node'', env = Map.empty\<rparr>"

section \<open>Properties of the handler\<close>

lemma user_agent_is_header_name: "is_header_name ''user-agent''"
  by (simp add: is_header_name_def is_tchar_def)

lemma headers_get_user_agent_total: "\<exists>agent. headers_get hs ''user-agent'' = Inr agent"
  using user_agent_is_header_name
  by (cases "map snd (filter (\<lambda>h. byte_lowercase (fst h) = byte_lowercase ''user-agent'') hs)")
     (simp_all add: headers_get_def)

lemma GET_of_agent:
  assumes "headers_get (headers request) ''user-agent'' = Inr agent"
  shows \<open>GET request =
           Inr (Response_json
                  (JObject [(''message'',
                             JString (''Hello "/api/demo"! Agent: '' @ template_string agent))]))\<close>
  using assms by (simp add: GET_def)

lemma message_of_Response_json:
  "message_of (Response_json (JObject [(''message'', v)])) = Some v"
  by (simp add: message_of_def Response_json_def)

lemma headers_get_absent:
  assumes "is_header_name name"
    and "list_all (\<lambda>h. byte_lowercase (fst h) \<noteq> byte_lowercase name) hs"
  shows "headers_get hs name = Inr None"
proof -
  have "filter (\<lambda>h. byte_lowercase (fst h) = byte_lowercase name) hs = []"
    using assms(2) by (induction hs) simp_all
  with assms(1) show ?thesis by (simp add: headers_get_def)
qed

text \<open>
  C1. When the \<^verbatim>\<open>user-agent\<close> header of the request is present with value \<open>X\<close>,
  the handler returns a response whose JSON body has the field \<^verbatim>\<open>message\<close> equal to
  the fixed template followed by \<open>X\<close> as it is.
\<close>

theorem GET_message_embeds_agent:
  assumes "headers_get (headers request) ''user-agent'' = Inr (Some X)"
  shows \<open>\<exists>r. GET request = Inr r \<and>
              message_of r = Some (JString (''Hello "/api/demo"! Agent: '' @ X))\<close>
  using GET_of_agent [OF assms]
  by (simp add: message_of_Response_json template_string_def)

theorem GET_message_embeds_agent_witness:
  \<open>headers_get
      (headers \<lparr>http_method = ''GET'', url = ''http://localhost:3000/api/demo'',
                headers = [(''Host'', ''localhost:3000''), (''User-Agent'', ''curl/8.5.0'')],
                body = None\<rparr>) ''user-agent'' = Inr (Some ''curl/8.5.0'') \<and>
    (\<exists>r. GET \<lparr>http_method = ''GET'', url = ''http://localhost:3000/api/demo'',
               headers = [(''Host'', ''localhost:3000''), (''User-Agent'', ''curl/8.5.0'')],
               body = None\<rparr> = Inr r \<and>
         message_of r = Some (JString ''Hello "/api/demo"! Agent: curl/8.5.0''))\<close>
proof -
  let ?rq = "\<lparr>http_method = ''GET'', url = ''http://localhost:3000/api/demo'',
               headers = [(''Host'', ''localhost:3000''), (''User-Agent'', ''curl/8.5.0'')],
               body = None\<rparr>"
  have present: "headers_get (headers ?rq) ''user-agent'' = Inr (Some ''curl/8.5.0'')"
    by (simp add: headers_get_def is_header_name_def is_tchar_def byte_lowercase_def
        ascii_lower_def)
  from GET_message_embeds_agent [OF present] present show ?thesis
    by simp
qed

text \<open>
  C2. When no header of the request is named \<^verbatim>\<open>user-agent\<close> (in any case of the
  letters), \<^verbatim>\<open>headers.get\<close> gives \<^verbatim>\<open>null\<close>, the handler still returns a response
  and takes no error branch, and its message is the template followed by \<^verbatim>\<open>null\<close>,
  so that it contains \<^verbatim>\<open>Agent: null\<close>.
\<close>

theorem GET_message_without_agent:
  assumes "list_all (\<lambda>h. byte_lowercase (fst h) \<noteq> ''user-agent'') (headers request)"
  shows \<open>headers_get (headers request) ''user-agent'' = Inr None \<and>
         (\<exists>r m. GET request = Inr r \<and> message_of r = Some (JString m) \<and>
                m = ''Hello "/api/demo"! Agent: null'' \<and>
                (\<exists>pre post. m = pre @ ''Agent: null'' @ post))\<close>
proof -
  have lower: "byte_lowercase ''user-agent'' = ''user-agent''"
    by (simp add: byte_lowercase_def ascii_lower_def)
  have absent: "headers_get (headers request) ''user-agent'' = Inr None"
    using headers_get_absent [OF user_agent_is_header_name, of "headers request"] assms
    by (simp add: lower)
  have split: \<open>''Hello "/api/demo"! Agent: null'' = ''Hello "/api/demo"! '' @ ''Agent: null'' @ []\<close>
    by simp
  have \<open>\<exists>pre post. ''Hello "/api/demo"! Agent: null'' = pre @ ''Agent: null'' @ post\<close>
    using split by blast
  with absent GET_of_agent [OF absent] show ?thesis
    by (simp add: message_of_Response_json template_string_def)
qed

theorem GET_message_without_agent_witness:
  \<open>list_all (\<lambda>h. byte_lowercase (fst h) \<noteq> ''user-agent'')
      (headers \<lparr>http_method = ''GET'', url = ''http://localhost:3000/api/demo'',
                headers = [(''Host'', ''localhost:3000''), (''Accept'', ''*/*'')],
                body = None\<rparr>) \<and>
    GET \<lparr>http_method = ''GET'', url = ''http://localhost:3000/api/demo'',
         headers = [(''Host'', ''localhost:3000''), (''Accept'', ''*/*'')], body = None\<rparr> =
      Inr (Response_json (JObject [(''message'', JString ''Hello "/api/demo"! Agent: null'')]))\<close>
proof -
  let ?rq = "\<lparr>http_method = ''GET'', url = ''http://localhost:3000/api/demo'',
               headers = [(''Host'', ''localhost:3000''), (''Accept'', ''*/*'')],
               body = None\<rparr>"
  have absent: "list_all (\<lambda>h. byte_lowercase (fst h) \<noteq> ''user-agent'') (headers ?rq)"
    by (simp add: byte_lowercase_def ascii_lower_def)
  from GET_message_without_agent [OF absent] absent show ?thesis
    by (simp add: GET_def template_string_def)
qed

text \<open>
  C3. For every request the handler returns a response, never an error; its status is
  200 and its body is the JSON text of an object with the one field \<^verbatim>\<open>message\<close>,
  whose value is a string.
\<close>

theorem GET_response_shape:
  "\<exists>s. GET request =
         Inr \<lparr>status = 200, resp_headers = [(''content-type'', ''application/json'')],
              resp_body = JsonText (JObject [(''message'', JString s)])\<rparr>"
proof -
  obtain agent where "headers_get (headers request) ''user-agent'' = Inr agent"
    using headers_get_user_agent_total by blast
  from GET_of_agent [OF this] show ?thesis
    by (simp add: Response_json_def)
qed

theorem GET_response_shape_witness:
  "\<exists>s. GET \<lparr>http_method = ''GET'', url = ''/api/demo'',
              headers = [(''user-agent'', ''Mozilla/5.0''), (''USER-AGENT'', ''probe'')],
              body = Some ''ignored''\<rparr> =
         Inr \<lparr>status = 200, resp_headers = [(''content-type'', ''application/json'')],
              resp_body = JsonText (JObject [(''message'', JString s)])\<rparr>"
  by (rule GET_response_shape)

text \<open>
  C8. The handler is a function of the \<^verbatim>\<open>user-agent\<close> header alone: two requests
  for which \<^verbatim>\<open>headers.get("user-agent")\<close> gives the same value (the same string, or
  \<^verbatim>\<open>null\<close> for both) get the same response, hence the same message, whatever their
  other headers, bodies, methods and URLs are.
\<close>

theorem GET_depends_only_on_agent:
  assumes "headers_get (headers r1) ''user-agent'' = headers_get (headers r2) ''user-agent''"
  shows "GET r1 = GET r2 \<and>
         (\<exists>a. GET r1 = Inr a \<and> GET r2 = Inr a \<and> message_of a \<noteq> None)"
proof -
  obtain agent where a1: "headers_get (headers r1) ''user-agent'' = Inr agent"
    using headers_get_user_agent_total by blast
  with assms have a2: "headers_get (headers r2) ''user-agent'' = Inr agent"
    by simp
  show ?thesis
    unfolding GET_of_agent [OF a1] GET_of_agent [OF a2]
    by (simp add: message_of_Response_json)
qed

theorem GET_depends_only_on_agent_witness:
  "GET \<lparr>http_method = ''GET'', url = ''http://localhost:3000/api/demo?x=1'',
        headers = [(''User-Agent'', ''node''), (''Accept'', ''*/*'')], body = None\<rparr> =
   GET \<lparr>http_method = ''GET'', url = ''https://example.org/api/demo'',
        headers = [(''Cookie'', ''a=b''), (''user-agent'', ''node'')],
        body = Some ''payload''\<rparr>"
proof -
  let ?r1 = "\<lparr>http_method = ''GET'', url = ''http://localhost:3000/api/demo?x=1'',
               headers = [(''User-Agent'', ''node''), (''Accept'', ''*/*'')], body = None\<rparr>"
  let ?r2 = "\<lparr>http_method = ''GET'', url = ''https://example.org/api/demo'',
               headers = [(''Cookie'', ''a=b''), (''user-agent'', ''node'')],
               body = Some ''payload''\<rparr>"
  have same: "headers_get (headers ?r1) ''user-agent'' = headers_get (headers ?r2) ''user-agent''"
    by (simp add: headers_get_def byte_lowercase_def ascii_lower_def)
  from GET_depends_only_on_agent [OF same] show ?thesis
    by blast
qed

text \<open>
  C9. For every request the message starts with the 26 characters of the fixed prefix,
  and what follows them is the value \<^verbatim>\<open>headers.get("user-agent")\<close> gave, character
  for character (\<^verbatim>\<open>null\<close> when it gave none): nothing is escaped, cut or removed.
\<close>

theorem GET_message_prefix_and_rest:
  \<open>\<exists>r m agent.
      headers_get (headers request) ''user-agent'' = Inr agent \<and>
      GET request = Inr r \<and> message_of r = Some (JString m) \<and>
      take 26 m = ''Hello "/api/demo"! Agent: '' \<and>
      drop 26 m = (case agent of Some X \<Rightarrow> X | None \<Rightarrow> ''null'')\<close>
proof -
  obtain agent where a: "headers_get (headers request) ''user-agent'' = Inr agent"
    using headers_get_user_agent_total by blast
  have len: \<open>length ''Hello "/api/demo"! Agent: '' = 26\<close>
    by simp
  show ?thesis
    using a GET_of_agent [OF a] len
    by (simp add: message_of_Response_json template_string_def)
qed

theorem GET_message_prefix_and_rest_witness:
  \<open>\<exists>r m. GET \<lparr>http_method = ''GET'', url = ''/api/demo'',
                headers = [(''User-Agent'', ''<b>"a&b"</b>  ${agent} %00'')],
                body = None\<rparr> = Inr r \<and>
          message_of r = Some (JString m) \<and>
          take 26 m = ''Hello "/api/demo"! Agent: '' \<and>
          drop 26 m = ''<b>"a&b"</b>  ${agent} %00''\<close>
proof -
  let ?rq = \<open>\<lparr>http_method = ''GET'', url = ''/api/demo'',
               headers = [(''User-Agent'', ''<b>"a&b"</b>  ${agent} %00'')],
               body = None\<rparr>\<close>
  have present: \<open>headers_get (headers ?rq) ''user-agent'' = Inr (Some ''<b>"a&b"</b>  ${agent} %00'')\<close>
    by (simp add: headers_get_def is_header_name_def is_tchar_def byte_lowercase_def
        ascii_lower_def)
  from GET_message_prefix_and_rest [of ?rq] show ?thesis
    unfolding present by auto
qed

section \<open>Properties of the root route\<close>

lemma getMessageFn_trace:
  "fst (getMessageFn opts w) =
     [Sent (fetch_request ''http://localhost:3000/api/demo''),
      Settled (fetch_request ''http://localhost:3000/api/demo'')]"
  by (simp add: getMessageFn_def fetch_def Let_def split: sum.split)

lemma getMessageFn_result:
  "snd (getMessageFn opts w) =
     (case network w (fetch_request ''http://localhost:3000/api/demo'') of
        Inl e \<Rightarrow> Inl e
      | Inr response \<Rightarrow> response_json response)"
  by (simp add: getMessageFn_def fetch_def Let_def split: sum.split)

lemma page_load_trace: "fst (page_load w) = fst (loader w)"
  by (cases "loader w") (simp add: page_load_def split: sum.split)

lemma in_flight_pair: "in_flight (take n [Sent a, Settled b]) \<le> 1"
proof (cases n)
  case 0
  then show ?thesis by (simp add: in_flight_def)
next
  case (Suc k)
  then show ?thesis by (cases k) (simp_all add: in_flight_def)
qed

text \<open>
  C4. Whatever the caller passes and whatever the environment and the network are, a
  call of \<^verbatim>\<open>getMessageFn\<close> sends one request: a \<^verbatim>\<open>GET\<close> to
  \<^verbatim>\<open>http://localhost:3000/api/demo\<close>. Two calls with different arguments in
  different worlds leave the same trace.
\<close>

theorem getMessageFn_fixed_url:
  "sent (fst (getMessageFn opts w)) =
     [\<lparr>http_method = ''GET'', url = ''http://localhost:3000/api/demo'', headers = [],
       body = None\<rparr>] \<and>
   fst (getMessageFn opts w) = fst (getMessageFn opts' w')"
  by (simp add: getMessageFn_trace fetch_request_def)

theorem getMessageFn_fixed_url_witness:
  "map url (sent (fst (getMessageFn (Some (JObject [(''url'', JString ''https://example.org/'')]))
                        \<lparr>network = (\<lambda>rq. Inl (TypeError ''fetch failed'')),
                         env = [''API_URL'' \<mapsto> ''https://example.org/'']\<rparr>))) =
     [''http://localhost:3000/api/demo''] \<and>
   fst (getMessageFn (Some (JObject [(''url'', JString ''https://example.org/'')]))
          \<lparr>network = (\<lambda>rq. Inl (TypeError ''fetch failed'')),
           env = [''API_URL'' \<mapsto> ''https://example.org/'']\<rparr>) =
     fst (getMessageFn None dev_world)"
proof -
  let ?opts = "Some (JObject [(''url'', JString ''https://example.org/'')])"
  let ?w = "\<lparr>network = (\<lambda>rq. Inl (TypeError ''fetch failed'')),
              env = [''API_URL'' \<mapsto> ''https://example.org/'']\<rparr>"
  note fixed = getMessageFn_fixed_url [of ?opts ?w None dev_world]
  from fixed [THEN conjunct1]
  have "map url (sent (fst (getMessageFn ?opts ?w))) = [''http://localhost:3000/api/demo'']"
    by simp
  moreover note fixed [THEN conjunct2]
  ultimately show ?thesis by (rule conjI)
qed

text \<open>
  C5. A rejection of the fetch is the result of \<^verbatim>\<open>getMessageFn\<close>, the same error
  value; so is a rejection of \<^verbatim>\<open>response.json()\<close>; and a body that parses is
  returned as it was parsed. In each case exactly one request has been sent: nothing is
  tried again.
\<close>

theorem getMessageFn_propagates:
  "(network w (fetch_request ''http://localhost:3000/api/demo'') = Inl e \<longrightarrow>
      snd (getMessageFn opts w) = Inl e) \<and>
   (network w (fetch_request ''http://localhost:3000/api/demo'') = Inr r \<and>
    response_json r = Inl e' \<longrightarrow>
      snd (getMessageFn opts w) = Inl e') \<and>
   (network w (fetch_request ''http://localhost:3000/api/demo'') = Inr r \<and>
    response_json r = Inr data \<longrightarrow>
      snd (getMessageFn opts w) = Inr data) \<and>
   length (sent (fst (getMessageFn opts w))) = 1"
  by (simp add: getMessageFn_result getMessageFn_trace)

theorem getMessageFn_propagates_witness:
  "snd (getMessageFn None \<lparr>network = (\<lambda>rq. Inl (DOMException ''AbortError'' ''aborted'')),
                          env = Map.empty\<rparr>) =
     Inl (DOMException ''AbortError'' ''aborted'') \<and>
   snd (getMessageFn None
          \<lparr>network = (\<lambda>rq. Inr \<lparr>status = 200, resp_headers = [(''content-type'', ''text/html'')],
                                 resp_body = NotJson ''<!doctype html>''\<rparr>),
           env = Map.empty\<rparr>) =
     Inl (SyntaxError ''Unexpected token in JSON'') \<and>
   snd (getMessageFn None
          \<lparr>network = (\<lambda>rq. Inr \<lparr>status = 200, resp_headers = [],
                                 resp_body = JsonText (JArray [JNumber 1, JNull])\<rparr>),
           env = Map.empty\<rparr>) =
     Inr (JArray [JNumber 1, JNull])"
proof -
  let ?url = "''http://localhost:3000/api/demo''"
  let ?w1 = "\<lparr>network = (\<lambda>rq. Inl (DOMException ''AbortError'' ''aborted'')),
               env = Map.empty\<rparr>"
  let ?r2 = "\<lparr>status = 200, resp_headers = [(''content-type'', ''text/html'')],
               resp_body = NotJson ''<!doctype html>''\<rparr>"
  let ?w2 = "\<lparr>network = (\<lambda>rq. Inr ?r2), env = Map.empty\<rparr>"
  let ?r3 = "\<lparr>status = 200, resp_headers = [],
               resp_body = JsonText (JArray [JNumber 1, JNull])\<rparr>"
  let ?w3 = "\<lparr>network = (\<lambda>rq. Inr ?r3), env = Map.empty\<rparr>"
  have rejected: "network ?w1 (fetch_request ?url) = Inl (DOMException ''AbortError'' ''aborted'')"
    by simp
  have unparsed: "network ?w2 (fetch_request ?url) = Inr ?r2 \<and>
                  response_json ?r2 = Inl (SyntaxError ''Unexpected token in JSON'')"
    by (simp add: response_json_def)
  have parsed: "network ?w3 (fetch_request ?url) = Inr ?r3 \<and>
                response_json ?r3 = Inr (JArray [JNumber 1, JNull])"
    by (simp add: response_json_def)
  have "snd (getMessageFn None ?w1) = Inl (DOMException ''AbortError'' ''aborted'')"
    using getMessageFn_propagates [of ?w1 "DOMException ''AbortError'' ''aborted''" None]
      rejected by blast
  moreover have "snd (getMessageFn None ?w2) = Inl (SyntaxError ''Unexpected token in JSON'')"
    using getMessageFn_propagates
            [of ?w2 _ None ?r2 "SyntaxError ''Unexpected token in JSON''"]
      unparsed by blast
  moreover have "snd (getMessageFn None ?w3) = Inr (JArray [JNumber 1, JNull])"
    using getMessageFn_propagates [of ?w3 _ None ?r3 _ "JArray [JNumber 1, JNull]"]
      parsed by blast
  ultimately show ?thesis by blast
qed

text \<open>
  C10. \<^verbatim>\<open>getMessageFn\<close> looks at neither the status nor the headers of the
  response, nor at the shape of the parsed body: whatever JSON value the body holds is
  its result, also under a status other than 200 and without a field \<^verbatim>\<open>message\<close>.
\<close>

theorem getMessageFn_no_validation:
  assumes "network w (fetch_request ''http://localhost:3000/api/demo'') =
             Inr \<lparr>status = s, resp_headers = hs, resp_body = JsonText data\<rparr>"
  shows "snd (getMessageFn opts w) = Inr data"
  using assms by (simp add: getMessageFn_result response_json_def)

theorem getMessageFn_no_validation_witness:
  "snd (getMessageFn None
          \<lparr>network = (\<lambda>rq. Inr \<lparr>status = 500, resp_headers = [(''content-type'', ''text/plain'')],
                                 resp_body = JsonText (JObject [(''error'', JString ''down'')])\<rparr>),
           env = Map.empty\<rparr>) =
     Inr (JObject [(''error'', JString ''down'')]) \<and>
   destructure_message (JObject [(''error'', JString ''down'')]) = Inr None"
proof -
  let ?r = "\<lparr>status = 500, resp_headers = [(''content-type'', ''text/plain'')],
              resp_body = JsonText (JObject [(''error'', JString ''down'')])\<rparr>"
  let ?w = "\<lparr>network = (\<lambda>rq. Inr ?r), env = Map.empty\<rparr>"
  have served: "network ?w (fetch_request ''http://localhost:3000/api/demo'') = Inr ?r"
    by simp
  from getMessageFn_no_validation [OF served, of None] show ?thesis
    by (simp add: destructure_message_def)
qed

text \<open>
  C7. A run of the loader sends exactly one request, and at every moment of the run (after
  each number \<open>n\<close> of events of its trace) at most one request is in flight. The
  component adds no event: the trace of a page load is the trace of its loader.
\<close>

theorem loader_single_request:
  "length (sent (fst (loader w))) = 1 \<and>
   (\<forall>n. in_flight (take n (fst (loader w))) \<le> 1) \<and>
   fst (page_load w) = fst (loader w)"
proof -
  have one_sent: "length (sent (fst (loader w))) = 1"
    by (simp add: loader_def getMessageFn_trace)
  have at_most_one: "in_flight (take n (fst (loader w))) \<le> 1" for n
    unfolding loader_def getMessageFn_trace by (rule in_flight_pair)
  from one_sent at_most_one page_load_trace [of w] show ?thesis
    by blast
qed

theorem loader_single_request_witness:
  "length (sent (fst (loader dev_world))) = 1 \<and>
   in_flight (take 1 (fst (page_load dev_world))) \<le> 1 \<and>
   in_flight (take 2 (fst (page_load dev_world))) \<le> 1"
  using loader_single_request [of dev_world] by simp

lemma getMessageFn_pair:
  "getMessageFn opts w =
     ([Sent (fetch_request ''http://localhost:3000/api/demo''),
       Settled (fetch_request ''http://localhost:3000/api/demo'')],
      snd (getMessageFn opts w))"
  using getMessageFn_trace [of opts w] by (simp add: prod_eq_iff)

lemma message_field_string:
  assumes "message_field data = Some (JString m)"
  shows "App data =
           Inr \<lparr>tag = ''div'', className = ''mx-auto flex p-4'', children = Some (JString m)\<rparr>"
  using assms
  by (cases data) (simp_all add: message_field_def App_def destructure_message_def)

lemma rendered_page_of_string:
  assumes loaded: "getMessageFn None w = (t, Inr data)"
    and field: "message_field data = Some (JString m)"
  shows "rendered_page w = (t, Inr [StringText m])" and "shows_message_field w"
proof -
  show page: "rendered_page w = (t, Inr [StringText m])"
    by (simp add: rendered_page_def page_load_def loader_def loaded
        message_field_string [OF field] render_text_def)
  show "shows_message_field w"
    by (simp add: shows_message_field_def page loaded field)
qed

lemma getMessageFn_served_by_GET:
  assumes served: "network w (fetch_request ''http://localhost:3000/api/demo'') = GET inbound"
    and agent: "headers_get (headers inbound) ''user-agent'' = Inr agent"
  shows \<open>snd (getMessageFn None w) =
           Inr (JObject [(''message'',
                          JString (''Hello "/api/demo"! Agent: '' @ template_string agent))])\<close>
  unfolding getMessageFn_result served GET_of_agent [OF agent]
  by (simp add: response_json_def Response_json_def)

text \<open>
  C6, as amended. In every page load in which the value that the loader's call of
  \<^verbatim>\<open>getMessageFn\<close> returned has a \<^verbatim>\<open>message\<close> field that is a string, the page
  renders and its text is exactly that string. This is so whenever the request of that
  call is answered by the handler of \<^verbatim>\<open>/api/demo\<close> (for whatever inbound request
  the handler sees): the load succeeds and the text is the message string of the
  handler's response, unchanged.
\<close>

theorem rendered_page_string_message:
  \<open>(getMessageFn None w = (t, Inr data) \<and> message_field data = Some (JString m) \<longrightarrow>
      rendered_page w = (t, Inr [StringText m]) \<and> shows_message_field w) \<and>
    (network w (fetch_request ''http://localhost:3000/api/demo'') = GET inbound \<longrightarrow>
      (\<exists>t' r agent.
          GET inbound = Inr r \<and>
          headers_get (headers inbound) ''user-agent'' = Inr agent \<and>
          message_of r = Some (JString (''Hello "/api/demo"! Agent: '' @ template_string agent)) \<and>
          rendered_page w =
            (t', Inr [StringText (''Hello "/api/demo"! Agent: '' @ template_string agent)]) \<and>
          shows_message_field w))\<close>
proof (rule conjI; rule impI)
  assume "getMessageFn None w = (t, Inr data) \<and> message_field data = Some (JString m)"
  then show "rendered_page w = (t, Inr [StringText m]) \<and> shows_message_field w"
    using rendered_page_of_string by blast
next
  assume served: "network w (fetch_request ''http://localhost:3000/api/demo'') = GET inbound"
  obtain agent where agent: "headers_get (headers inbound) ''user-agent'' = Inr agent"
    using headers_get_user_agent_total by blast
  let ?m = \<open>''Hello "/api/demo"! Agent: '' @ template_string agent\<close>
  let ?data = "JObject [(''message'', JString ?m)]"
  let ?t = "[Sent (fetch_request ''http://localhost:3000/api/demo''),
             Settled (fetch_request ''http://localhost:3000/api/demo'')]"
  have handled: "GET inbound = Inr (Response_json ?data)"
    using GET_of_agent [OF agent] .
  have sent_message: "message_of (Response_json ?data) = Some (JString ?m)"
    by (simp add: message_of_Response_json)
  have loaded: "getMessageFn None w = (?t, Inr ?data)"
    using getMessageFn_pair [of None w] getMessageFn_served_by_GET [OF served agent]
    by simp
  have field: "message_field ?data = Some (JString ?m)"
    by (simp add: message_field_def)
  note page = rendered_page_of_string [OF loaded field]
  from handled agent sent_message page
  show \<open>\<exists>t' r agent.
          GET inbound = Inr r \<and>
          headers_get (headers inbound) ''user-agent'' = Inr agent \<and>
          message_of r = Some (JString (''Hello "/api/demo"! Agent: '' @ template_string agent)) \<and>
          rendered_page w =
            (t', Inr [StringText (''Hello "/api/demo"! Agent: '' @ template_string agent)]) \<and>
          shows_message_field w\<close>
    by blast
qed

theorem rendered_page_string_message_witness:
  \<open>rendered_page (stub_world (JObject [(''id'', JNumber 7), (''message'', JString ''hi''),
                                        (''extra'', JNull)])) =
      ([Sent (fetch_request ''http://localhost:3000/api/demo''),
        Settled (fetch_request ''http://localhost:3000/api/demo'')],
       Inr [StringText ''hi'']) \<and>
    (\<exists>t'. rendered_page dev_world =
            (t', Inr [StringText ''Hello "/api/demo"! Agent: node'']))\<close>
proof -
  let ?url = "''http://localhost:3000/api/demo''"
  let ?t = "[Sent (fetch_request ?url), Settled (fetch_request ?url)]"
  let ?data = "JObject [(''id'', JNumber 7), (''message'', JString ''hi''), (''extra'', JNull)]"
  have loaded: "getMessageFn None (stub_world ?data) = (?t, Inr ?data)"
    using getMessageFn_pair [of None "stub_world ?data"]
    by (simp add: getMessageFn_result stub_world_def response_json_def Response_json_def)
  have field: "message_field ?data = Some (JString ''hi'')"
    by (simp add: message_field_def)
  from rendered_page_string_message [of "stub_world ?data" ?t ?data "''hi''", THEN conjunct1]
    loaded field
  have first: "rendered_page (stub_world ?data) = (?t, Inr [StringText ''hi''])"
    by blast
  let ?inbound = "\<lparr>http_method = ''GET'', url = ?url, headers = [(''user-agent'', ''node'')],
                    body = None\<rparr>"
  have served: "network dev_world (fetch_request ?url) = GET ?inbound"
    by (simp add: dev_world_def dev_network_def fetch_request_def)
  have agent: "headers_get [(''user-agent'', ''node'')] ''user-agent'' = Inr (Some ''node'')"
    by (simp add: headers_get_def is_header_name_def is_tchar_def byte_lowercase_def
        ascii_lower_def)
  from rendered_page_string_message [of dev_world _ _ _ ?inbound, THEN conjunct2] served
  have second: \<open>\<exists>t'. rendered_page dev_world =
                       (t', Inr [StringText ''Hello "/api/demo"! Agent: node''])\<close>
    by (auto simp: agent template_string_def)
  from first second show ?thesis by blast
qed

text \<open>
  C6, as the specification states it, fails. When the server on the port answers
  \<^verbatim>\<open>{"message": true}\<close>, the loader returns that object, the component returns its
  \<^verbatim>\<open>div\<close> and React renders it, so the page load succeeds; but a boolean child
  gives no text node: the page shows no text at all, while the message field is
  \<^verbatim>\<open>true\<close>.
\<close>

theorem rendered_page_boolean_message_counterexample:
  "\<not> shows_message_field (stub_world (JObject [(''message'', JBool True)])) \<and>
   rendered_page (stub_world (JObject [(''message'', JBool True)])) =
     ([Sent (fetch_request ''http://localhost:3000/api/demo''),
       Settled (fetch_request ''http://localhost:3000/api/demo'')], Inr []) \<and>
   getMessageFn None (stub_world (JObject [(''message'', JBool True)])) =
     ([Sent (fetch_request ''http://localhost:3000/api/demo''),
       Settled (fetch_request ''http://localhost:3000/api/demo'')],
      Inr (JObject [(''message'', JBool True)])) \<and>
   message_field (JObject [(''message'', JBool True)]) = Some (JBool True)"
proof -
  let ?data = "JObject [(''message'', JBool True)]"
  let ?t = "[Sent (fetch_request ''http://localhost:3000/api/demo''),
             Settled (fetch_request ''http://localhost:3000/api/demo'')]"
  have loaded: "getMessageFn None (stub_world ?data) = (?t, Inr ?data)"
    using getMessageFn_pair [of None "stub_world ?data"]
    by (simp add: getMessageFn_result stub_world_def response_json_def Response_json_def)
  have field: "message_field ?data = Some (JBool True)"
    by (simp add: message_field_def)
  have page: "rendered_page (stub_world ?data) = (?t, Inr [])"
    by (simp add: rendered_page_def page_load_def loader_def loaded App_def
        destructure_message_def render_text_def)
  have "\<not> shows_message_field (stub_world ?data)"
    by (simp add: shows_message_field_def page loaded field)
  with page loaded field show ?thesis by blast
qed

end
